theory Spec2Isabelle
  imports Main
begin

section \<open>Python values and dictionaries\<close>

text \<open>
  The responses and action descriptors of the transfer layer are Python dictionaries with
  string keys whose values are strings, integers, booleans or nested dictionaries. A
  dictionary is an association list in insertion order with at most one entry per key.
\<close>

datatype pyval = PStr string | PInt int | PBool bool | PDict "(string \<times> pyval) list"

type_synonym pydict = "(string \<times> pyval) list"

text \<open>\<^verbatim>\<open>d[k] = v\<close>: an existing key keeps its position, a new key is appended.\<close>

fun dict_set :: "pydict \<Rightarrow> string \<Rightarrow> pyval \<Rightarrow> pydict" where
  "dict_set [] k v = [(k, v)]"
| "dict_set ((k', v') # d) k v =
     (if k' = k then (k, v) # d else (k', v') # dict_set d k v)"

text \<open>\<^verbatim>\<open>d.update(e)\<close>: the entries of \<open>e\<close> are stored one after the other.\<close>

definition dict_update :: "pydict \<Rightarrow> pydict \<Rightarrow> pydict" where
  "dict_update d e = foldl (\<lambda>acc kv. dict_set acc (fst kv) (snd kv)) d e"

text \<open>\<^verbatim>\<open>d.get(k)\<close> and \<^verbatim>\<open>k in d\<close>.\<close>

definition dict_get :: "pydict \<Rightarrow> string \<Rightarrow> pyval option" where
  "dict_get d k = map_of d k"

definition has_key :: "pydict \<Rightarrow> string \<Rightarrow> bool" where
  "has_key d k = (dict_get d k \<noteq> None)"

definition keys :: "pydict \<Rightarrow> string list" where
  "keys d = map fst d"

section \<open>Exceptions\<close>

text \<open>
  Every exception the modelled code can raise is a value; a fallible operation returns
  \<open>error + 'a\<close> with \<open>Inl\<close> for the raised exception. \<open>NotFound\<close> and \<open>ObjectNotFound\<close>
  are the server's own exceptions and carry their message; \<open>Conflict\<close> and
  \<open>BucketNotFound\<close> are raised by the cloud client library; \<open>ServiceError\<close> stands for
  any other failure of a cloud call; the remaining ones are Python built-ins.
\<close>

datatype error =
    NotFound string
  | ObjectNotFound string
  | Conflict
  | BucketNotFound
  | ServiceError string
  | FileExistsError
  | FileNotFoundError
  | NotADirectoryError
  | IsADirectoryError
  | AttributeError
  | OverflowError

section \<open>POSIX paths (\<^verbatim>\<open>os.path\<close>)\<close>

text \<open>\<^verbatim>\<open>s.startswith(t)\<close> and \<^verbatim>\<open>s.endswith(t)\<close>.\<close>

definition startswith :: "string \<Rightarrow> string \<Rightarrow> bool" where
  "startswith s t = (take (length t) s = t)"

definition endswith :: "string \<Rightarrow> string \<Rightarrow> bool" where
  "endswith s t = (drop (length s - length t) s = t)"

text \<open>
  One round of the loop of \<^verbatim>\<open>posixpath.join\<close>: a component that starts with the
  separator replaces everything before it; otherwise it is appended, after a separator
  unless the path so far is empty or already ends with one.
\<close>

definition join_step :: "string \<Rightarrow> string \<Rightarrow> string" where
  "join_step p b =
     (if startswith b ''/'' then b
      else if p = [] \<or> endswith p ''/'' then p @ b
      else p @ ''/'' @ b)"

definition os_path_join :: "string \<Rightarrow> string list \<Rightarrow> string" where
  "os_path_join a ps = foldl join_step a ps"

text \<open>\<^verbatim>\<open>s.rstrip('/')\<close>.\<close>

definition rstrip_sep :: "string \<Rightarrow> string" where
  "rstrip_sep p = rev (dropWhile (\<lambda>c. c = CHR ''/'') (rev p))"



section \<open>Byte streams\<close>

text \<open>
  A binary input stream (\<^verbatim>\<open>BinaryIO\<close>) is its content and the position of the next
  read. \<^verbatim>\<open>read(n)\<close> returns at most \<open>n\<close> bytes from the position and advances it;
  \<^verbatim>\<open>read()\<close> returns all that is left.
\<close>

type_synonym bytes = string

record stream =
  content :: bytes
  position :: nat





section \<open>The local file system\<close>

text \<open>
  The storage code reaches the file system through \<^verbatim>\<open>os\<close>, \<^verbatim>\<open>os.path\<close>,
  \<^verbatim>\<open>open\<close> and \<^verbatim>\<open>shutil\<close>, which are Python's library and not code of the
  repository; they are modelled here by their documented behaviour on a POSIX system.

  A file system maps a path to a regular file with its content or to a directory. Paths are
  the strings the program computes: a trailing separator is resolved as the operating
  system does (the path then names a directory), and a path of separators only is the root,
  which always exists; links, \<^verbatim>\<open>.\<close>, \<^verbatim>\<open>..\<close> and repeated inner separators are
  not interpreted. The empty path names nothing.
\<close>

datatype node = File bytes | Dir

type_synonym filesystem = "string \<Rightarrow> node option"

definition stat :: "filesystem \<Rightarrow> string \<Rightarrow> node option" where
  "stat fs p =
     (if p = [] then None
      else if rstrip_sep p = [] then Some Dir
      else if rstrip_sep p = p then fs p
      else (case fs (rstrip_sep p) of Some Dir \<Rightarrow> Some Dir | _ \<Rightarrow> None))"

definition os_path_exists :: "filesystem \<Rightarrow> string \<Rightarrow> bool" where
  "os_path_exists fs p = (stat fs p \<noteq> None)"

definition os_path_isfile :: "filesystem \<Rightarrow> string \<Rightarrow> bool" where
  "os_path_isfile fs p = (case stat fs p of Some (File _) \<Rightarrow> True | _ \<Rightarrow> False)"

definition os_path_isdir :: "filesystem \<Rightarrow> string \<Rightarrow> bool" where
  "os_path_isdir fs p = (case stat fs p of Some Dir \<Rightarrow> True | _ \<Rightarrow> False)"

text \<open>
  \<^verbatim>\<open>os.path.getsize\<close>: the length of a regular file. The size the system reports for
  a directory depends on the platform; the storage code asks for the size of regular files
  only, and the model reports a directory as 0.
\<close>

definition os_path_getsize :: "filesystem \<Rightarrow> string \<Rightarrow> error + int" where
  "os_path_getsize fs p =
     (case stat fs p of
        None \<Rightarrow> Inl FileNotFoundError
      | Some (File b) \<Rightarrow> Inr (int (length b))
      | Some Dir \<Rightarrow> Inr 0)"

text \<open>
  The proper ancestors of a path: what precedes each of its separators, without trailing
  separators; the empty string (the working directory, or the root of an absolute path) is
  left out, since both always exist.
\<close>

definition ancestors :: "string \<Rightarrow> string list" where
  "ancestors p =
     filter (\<lambda>q. q \<noteq> [])
       (map (\<lambda>i. rstrip_sep (take i p)) (filter (\<lambda>i. p ! i = CHR ''/'') [0..<length p]))"

text \<open>
  \<^verbatim>\<open>os.makedirs(name)\<close> with \<^verbatim>\<open>exist_ok=False\<close>: creates the directory and every
  missing ancestor; fails when the name is empty, when the directory exists, and when an
  ancestor is a regular file.
\<close>

definition os_makedirs :: "filesystem \<Rightarrow> string \<Rightarrow> error + filesystem" where
  "os_makedirs fs name =
     (let k = rstrip_sep name
      in if name = [] then Inl FileNotFoundError
         else if k = [] then Inl FileExistsError
         else if list_ex (\<lambda>q. os_path_isfile fs q) (ancestors k) then Inl NotADirectoryError
         else if fs k \<noteq> None then Inl FileExistsError
         else Inr (\<lambda>q. if (q = k \<or> q \<in> set (ancestors k)) \<and> fs q = None
                          then Some Dir else fs q))"



text \<open>\<^verbatim>\<open>open(p, 'br')\<close>: a stream over the content of the file, at its start.\<close>

definition open_br :: "filesystem \<Rightarrow> string \<Rightarrow> error + stream" where
  "open_br fs p =
     (case stat fs p of
        None \<Rightarrow> Inl FileNotFoundError
      | Some Dir \<Rightarrow> Inl IsADirectoryError
      | Some (File b) \<Rightarrow> Inr \<lparr>content = b, position = 0\<rparr>)"






section \<open>LocalStorage\<close>

record LocalStorage =
  path :: string

definition LocalStorage_get_path :: "LocalStorage \<Rightarrow> string \<Rightarrow> string \<Rightarrow> string" where
  "LocalStorage_get_path self prefix oid = os_path_join (path self) [prefix, oid]"

definition LocalStorage_exists :: "LocalStorage \<Rightarrow> filesystem \<Rightarrow> string \<Rightarrow> string \<Rightarrow> bool" where
  "LocalStorage_exists self fs prefix oid =
     os_path_isfile fs (LocalStorage_get_path self prefix oid)"

definition LocalStorage_get_size ::
  "LocalStorage \<Rightarrow> filesystem \<Rightarrow> string \<Rightarrow> string \<Rightarrow> error + int" where
  "LocalStorage_get_size self fs prefix oid =
     (if LocalStorage_exists self fs prefix oid
      then os_path_getsize fs (LocalStorage_get_path self prefix oid)
      else Inr 0)"

definition LocalStorage_get ::
  "LocalStorage \<Rightarrow> filesystem \<Rightarrow> string \<Rightarrow> string \<Rightarrow> error + stream" where
  "LocalStorage_get self fs prefix oid =
     (let p = LocalStorage_get_path self prefix oid
      in if os_path_isfile fs p then open_br fs p
         else Inl (NotFound ''Requested object was not found''))"

text \<open>\<open>_create_path\<close>: the directory is made unless it is there.\<close>

definition LocalStorage_create_path :: "filesystem \<Rightarrow> string \<Rightarrow> error + filesystem" where
  "LocalStorage_create_path fs p =
     (if \<not> os_path_isdir fs p then os_makedirs fs p else Inr fs)"

text \<open>The constructor: the default root is \<^verbatim>\<open>lfs-storage\<close>, and the root is created.\<close>

definition LocalStorage_init ::
  "filesystem \<Rightarrow> string option \<Rightarrow> error + (LocalStorage \<times> filesystem)" where
  "LocalStorage_init fs p =
     (let p' = (case p of None \<Rightarrow> ''lfs-storage'' | Some q \<Rightarrow> q);
          self = \<lparr>path = p'\<rparr>
      in case LocalStorage_create_path fs (path self) of
           Inl e \<Rightarrow> Inl e
         | Inr fs' \<Rightarrow> Inr (self, fs'))"


section \<open>The cloud object store\<close>

text \<open>
  The client library of the cloud store is not code of the repository either; its calls are
  modelled by their documented behaviour on the state of the remote service as the library
  shows it: the buckets, each a flat
  map from blob names to contents; the failure, if any, with which the service answers a
  request to create a bucket (a refused permission, an unreachable network); and the
  bucket creations requested so far. A request for a bucket that exists is answered with
  \<open>Conflict\<close>.
\<close>

record cloud =
  buckets :: "string \<Rightarrow> (string \<Rightarrow> bytes option) option"
  create_failure :: "error option"
  create_requests :: "string list"

text \<open>\<^verbatim>\<open>client.create_bucket(name)\<close>; the state is returned with the outcome.\<close>

definition create_bucket :: "cloud \<Rightarrow> string \<Rightarrow> cloud \<times> (error + unit)" where
  "create_bucket c b =
     (let c1 = c\<lparr>create_requests := create_requests c @ [b]\<rparr>
      in case create_failure c of
           Some e \<Rightarrow> (c1, Inl e)
         | None \<Rightarrow>
             if buckets c b \<noteq> None then (c1, Inl Conflict)
             else (c1\<lparr>buckets := (buckets c)(b \<mapsto> Map.empty)\<rparr>, Inr ()))"

text \<open>
  \<^verbatim>\<open>blob.exists()\<close>, \<^verbatim>\<open>client.get_bucket(name)\<close> (which asks the service and
  fails for a missing bucket), \<^verbatim>\<open>bucket.get_blob(name)\<close> (\<open>None\<close> for a missing
  blob) and \<^verbatim>\<open>blob.upload_from_file(stream)\<close>, which stores what is left of the stream
  from its position on.
\<close>

definition blob_exists :: "cloud \<Rightarrow> string \<Rightarrow> string \<Rightarrow> bool" where
  "blob_exists c b n = (case buckets c b of None \<Rightarrow> False | Some bl \<Rightarrow> bl n \<noteq> None)"




section \<open>Dates\<close>

text \<open>
  A moment is a whole number of seconds since 1970-01-01 UTC. \<^verbatim>\<open>timedelta(seconds=n)\<close>
  fails when it spans more than 999999999 days, and the sum of a date and a duration fails
  when it leaves the years 1 to 9999 (proleptic ordinals 1 to 3652059; 1970-01-01 is
  ordinal 719163).
\<close>

definition timedelta_seconds :: "int \<Rightarrow> error + int" where
  "timedelta_seconds n =
     (if \<bar>n div 86400\<bar> > 999999999 then Inl OverflowError else Inr n)"

definition datetime_add :: "int \<Rightarrow> int \<Rightarrow> error + int" where
  "datetime_add t d =
     (let ordinal = 719163 + (t + d) div 86400
      in if 0 < ordinal \<and> ordinal \<le> 3652059 then Inr (t + d) else Inl OverflowError)"

section \<open>GoogleCloudBlobStorage\<close>

text \<open>
  The client object holds the credentials it was built from. The two operations of the
  client library that do not depend on the state of the store are parameters of the model:
  \<open>from_service_account_json\<close>, which builds a client from a credentials file or fails,
  and \<open>generate_signed_url\<close>, called on a bucket with the keyword arguments
  \<open>expiration\<close> and \<open>version\<close>, which returns a URL or fails.
\<close>

datatype storage_client = Client string

type_synonym signer = "storage_client \<Rightarrow> string \<Rightarrow> int \<Rightarrow> string \<Rightarrow> error + string"

record GoogleCloudBlobStorage =
  bucket_name :: string
  path_prefix :: "string option"
  storage_client :: storage_client

definition init_container :: "GoogleCloudBlobStorage \<Rightarrow> cloud \<Rightarrow> cloud \<times> (error + unit)" where
  "init_container self c =
     (case create_bucket c (bucket_name self) of
        (c', Inl Conflict) \<Rightarrow> (c', Inr ())
      | (c', r) \<Rightarrow> (c', r))"

definition GoogleCloudBlobStorage_init ::
  "(string \<Rightarrow> error + storage_client) \<Rightarrow> cloud \<Rightarrow> string \<Rightarrow> string \<Rightarrow> string option \<Rightarrow>
   cloud \<times> (error + GoogleCloudBlobStorage)" where
  "GoogleCloudBlobStorage_init from_service_account_json c bname account_json_path pprefix =
     (case from_service_account_json account_json_path of
        Inl e \<Rightarrow> (c, Inl e)
      | Inr cl \<Rightarrow>
          (let self = \<lparr>bucket_name = bname, path_prefix = pprefix, storage_client = cl\<rparr>
           in case init_container self c of
                (c', Inl e) \<Rightarrow> (c', Inl e)
              | (c', Inr u) \<Rightarrow> (c', Inr self)))"

text \<open>\<open>_get_blob_path\<close>: an absent or empty prefix counts as none.\<close>

definition get_blob_path :: "GoogleCloudBlobStorage \<Rightarrow> string \<Rightarrow> string \<Rightarrow> string" where
  "get_blob_path self prefix oid =
     (let storage_prefix =
            (case path_prefix self of
               None \<Rightarrow> []
             | Some pp \<Rightarrow>
                 if pp = [] then []
                 else if hd pp = CHR ''/'' then tl pp
                 else pp)
      in os_path_join storage_prefix [prefix, oid])"

definition GoogleCloudBlobStorage_exists ::
  "GoogleCloudBlobStorage \<Rightarrow> cloud \<Rightarrow> string \<Rightarrow> string \<Rightarrow> bool" where
  "GoogleCloudBlobStorage_exists self c prefix oid =
     blob_exists c (bucket_name self) (get_blob_path self prefix oid)"



text \<open>
  \<open>_get_signed_url\<close>. \<open>now\<close> is the clock's reading. The dictionary \<open>extra_args\<close> is
  filled when a file name is given; the call that signs is given the expiration and the
  version.
\<close>

definition get_signed_url ::
  "signer \<Rightarrow> int \<Rightarrow> GoogleCloudBlobStorage \<Rightarrow> string \<Rightarrow> string \<Rightarrow> int \<Rightarrow> string option \<Rightarrow>
   error + string" where
  "get_signed_url generate_signed_url now self prefix oid expires_in filename =
     (case timedelta_seconds expires_in of
        Inl e \<Rightarrow> Inl e
      | Inr d \<Rightarrow>
          (case datetime_add now d of
             Inl e \<Rightarrow> Inl e
           | Inr token_expires \<Rightarrow>
               (let extra_args =
                      (case filename of
                         None \<Rightarrow> []
                       | Some f \<Rightarrow>
                           if f = [] then []
                           else [(''content_disposition'',
                                  PStr (''attachment; filename=\"'' @ f @ ''\"''))]);
                    url = generate_signed_url (storage_client self) (bucket_name self)
                            token_expires ''v4''
                in url)))"

text \<open>
  The \<open>extra\<close> argument of the two actions is an optional dictionary with string values;
  an absent or empty one gives no file name.
\<close>

definition extra_filename :: "(string \<times> string) list option \<Rightarrow> string option" where
  "extra_filename extra =
     (case extra of None \<Rightarrow> None | Some d \<Rightarrow> if d = [] then None else map_of d ''filename'')"

definition get_upload_action ::
  "signer \<Rightarrow> int \<Rightarrow> GoogleCloudBlobStorage \<Rightarrow> string \<Rightarrow> string \<Rightarrow> int \<Rightarrow> int \<Rightarrow>
   (string \<times> string) list option \<Rightarrow> error + pydict" where
  "get_upload_action generate_signed_url now self prefix oid sz expires_in extra =
     (let filename = extra_filename extra
      in case get_signed_url generate_signed_url now self prefix oid expires_in filename of
           Inl e \<Rightarrow> Inl e
         | Inr href \<Rightarrow>
             Inr [(''actions'', PDict
                    [(''upload'', PDict
                       [(''href'', PStr href),
                        (''header'', PDict [(''x-ms-blob-type'', PStr ''BlockBlob'')]),
                        (''expires_in'', PInt expires_in)])])])"

definition get_download_action ::
  "signer \<Rightarrow> int \<Rightarrow> GoogleCloudBlobStorage \<Rightarrow> string \<Rightarrow> string \<Rightarrow> int \<Rightarrow> int \<Rightarrow>
   (string \<times> string) list option \<Rightarrow> error + pydict" where
  "get_download_action generate_signed_url now self prefix oid sz expires_in extra =
     (let filename = extra_filename extra
      in case get_signed_url generate_signed_url now self prefix oid expires_in filename of
           Inl e \<Rightarrow> Inl e
         | Inr href \<Rightarrow>
             Inr [(''actions'', PDict
                    [(''download'', PDict
                       [(''href'', PStr href),
                        (''header'', PDict []),
                        (''expires_in'', PInt 900)])])])"

section \<open>ObjectsView and BasicStreamedTransferAdapter\<close>

text \<open>
  \<^verbatim>\<open>flask.url_for\<close> belongs to the web framework; it is a parameter of the model, a
  function of the endpoint name and of the \<open>organization\<close>, \<open>repo\<close> and \<open>oid\<close>
  arguments it is called with.
\<close>

type_synonym url_for = "string \<Rightarrow> string \<Rightarrow> string \<Rightarrow> string option \<Rightarrow> string"

definition get_storage_url ::
  "url_for \<Rightarrow> string \<Rightarrow> string \<Rightarrow> string \<Rightarrow> string option \<Rightarrow> string" where
  "get_storage_url url operation organization repo oid =
     (let op_name = ''ObjectsView'' @ '':'' @ operation
      in url op_name organization repo oid)"

record BasicStreamedTransferAdapter =
  storage :: "LocalStorage option"
  action_lifetime :: int

definition basic_auth_header :: pyval where
  "basic_auth_header = PDict [(''Authorization'', PStr ''Basic yourmamaisauthorized'')]"

text \<open>
  \<open>upload\<close>. The condition is Python's short-circuit \<^verbatim>\<open>or\<close>: the size is read only
  when the object exists. A missing storage (the attribute is optional) makes the attribute
  access fail.
\<close>

definition upload ::
  "url_for \<Rightarrow> filesystem \<Rightarrow> BasicStreamedTransferAdapter \<Rightarrow>
   string \<Rightarrow> string \<Rightarrow> string \<Rightarrow> int \<Rightarrow> error + pydict" where
  "upload url fs self organization repo oid sz =
     (let response = [(''oid'', PStr oid), (''size'', PInt sz), (''authenticated'', PBool True)];
          prefix = os_path_join organization [repo]
      in case storage self of
           None \<Rightarrow> Inl AttributeError
         | Some st \<Rightarrow>
             (case (if \<not> LocalStorage_exists st fs prefix oid then Inr True
                    else (case LocalStorage_get_size st fs prefix oid of
                            Inl e \<Rightarrow> Inl e
                          | Inr n \<Rightarrow> Inr (n \<noteq> sz))) of
                Inl e \<Rightarrow> Inl e
              | Inr True \<Rightarrow>
                  Inr (dict_set response ''actions''
                    (PDict
                      [(''upload'', PDict
                          [(''href'', PStr (get_storage_url url ''put'' organization repo (Some oid))),
                           (''header'', basic_auth_header),
                           (''expires_in'', PInt (action_lifetime self))]),
                       (''verify'', PDict
                          [(''href'', PStr (get_storage_url url ''verify'' organization repo None)),
                           (''header'', basic_auth_header),
                           (''expires_in'', PInt (action_lifetime self))])]))
              | Inr False \<Rightarrow> Inr response))"

text \<open>\<open>download\<close>: the existence test, then the size test, then the action.\<close>

definition download ::
  "url_for \<Rightarrow> filesystem \<Rightarrow> BasicStreamedTransferAdapter \<Rightarrow>
   string \<Rightarrow> string \<Rightarrow> string \<Rightarrow> int \<Rightarrow> error + pydict" where
  "download url fs self organization repo oid sz =
     (let response = [(''oid'', PStr oid), (''size'', PInt sz)];
          prefix = os_path_join organization [repo]
      in case storage self of
           None \<Rightarrow> Inl AttributeError
         | Some st \<Rightarrow>
             if \<not> LocalStorage_exists st fs prefix oid then
               Inr (dict_set response ''error''
                 (PDict [(''code'', PInt 404), (''message'', PStr ''Object does not exist'')]))
             else
               (case LocalStorage_get_size st fs prefix oid of
                  Inl e \<Rightarrow> Inl e
                | Inr n \<Rightarrow>
                    if n \<noteq> sz then
                      Inr (dict_set response ''error''
                        (PDict [(''code'', PInt 422),
                                (''message'', PStr ''Object size does not match'')]))
                    else
                      Inr (dict_update response
                        [(''authenticated'', PBool True),
                         (''actions'', PDict
                            [(''download'', PDict
                               [(''href'', PStr (get_storage_url url ''get'' organization repo (Some oid))),
                                (''header'', basic_auth_header),
                                (''expires_in'', PInt (action_lifetime self))])])])))"

section \<open>Path layout as the specification words it\<close>

text \<open>
  A component followed by one separator, unless it is empty or already ends with one; and
  the configured prefix without one leading separator (no prefix is the empty string).
\<close>

definition with_sep :: "string \<Rightarrow> string" where
  "with_sep p = (if p = [] \<or> endswith p ''/'' then p else p @ ''/'')"

definition strip_leading_sep :: "string option \<Rightarrow> string" where
  "strip_leading_sep pp =
     (case pp of None \<Rightarrow> [] | Some q \<Rightarrow> if startswith q ''/'' then tl q else q)"

section \<open>Example states\<close>

text \<open>
  A routing function, a file system holding one object of five bytes under the default
  root, and an adapter over that root, for the concrete instances below.
\<close>

definition example_url_for :: url_for where
  "example_url_for op_name organization repo oid =
     ''https://lfs.example/'' @ organization @ ''/'' @ repo @ ''/'' @ op_name @
       (case oid of None \<Rightarrow> [] | Some x \<Rightarrow> ''/'' @ x)"

definition example_fs :: filesystem where
  "example_fs =
     [''lfs-storage'' \<mapsto> Dir,
      ''lfs-storage/org'' \<mapsto> Dir,
      ''lfs-storage/org/repo'' \<mapsto> Dir,
      ''lfs-storage/org/repo/abc'' \<mapsto> File ''hello'']"

definition example_storage :: LocalStorage where
  "example_storage = \<lparr>path = ''lfs-storage''\<rparr>"

definition example_adapter :: BasicStreamedTransferAdapter where
  "example_adapter = \<lparr>storage = Some example_storage, action_lifetime = 900\<rparr>"

text \<open>
  A store with one bucket holding the same object under the prefix \<open>p\<close>, a backend
  configured with the prefix \<open>/p\<close>, a signer that writes the bucket, the version and the
  expiration into the URL, and a loader of credentials.
\<close>

fun decimal :: "nat \<Rightarrow> string" where
  "decimal n =
     (if n < 10 then [''0123456789'' ! n] else decimal (n div 10) @ [''0123456789'' ! (n mod 10)])"

declare decimal.simps [simp del]

definition example_cloud :: cloud where
  "example_cloud =
     \<lparr>buckets = [''lfs-bucket'' \<mapsto> [''p/org/repo/abc'' \<mapsto> ''hello'']],
      create_failure = None,
      create_requests = []\<rparr>"

definition example_gcs :: GoogleCloudBlobStorage where
  "example_gcs =
     \<lparr>bucket_name = ''lfs-bucket'', path_prefix = Some ''/p'',
      storage_client = Client ''account.json''\<rparr>"

definition example_signer :: signer where
  "example_signer cl b expiration version =
     (if expiration < 0 then Inl (ServiceError ''expiration in the past'')
      else Inr (''https://storage.example/'' @ b @ ''?version='' @ version @
                ''&expires='' @ decimal (nat expiration)))"



definition example_from_json :: "string \<Rightarrow> error + storage_client" where
  "example_from_json account_json_path =
     (if account_json_path = [] then Inl FileNotFoundError else Inr (Client account_json_path))"


section \<open>The streamed transfer adapter\<close>

text \<open>An object that exists is a regular file, and its size is the length of that file.\<close>

lemma get_size_of_existing:
  "LocalStorage_exists st fs prefix oid \<Longrightarrow>
   \<exists>b. stat fs (LocalStorage_get_path st prefix oid) = Some (File b) \<and>
       LocalStorage_get_size st fs prefix oid = Inr (int (length b))"
  by (auto simp: LocalStorage_exists_def LocalStorage_get_size_def os_path_isfile_def
      os_path_getsize_def split: option.splits node.splits)

text \<open>The three responses of \<open>download\<close> and the two of \<open>upload\<close>, in full.\<close>

lemma download_missing:
  assumes "storage self = Some st"
    and "\<not> LocalStorage_exists st fs (os_path_join organization [repo]) oid"
  shows "download url fs self organization repo oid sz =
     Inr [(''oid'', PStr oid), (''size'', PInt sz),
          (''error'', PDict [(''code'', PInt 404), (''message'', PStr ''Object does not exist'')])]"
  using assms by (simp add: download_def)

lemma download_mismatch:
  assumes "storage self = Some st"
    and "LocalStorage_exists st fs (os_path_join organization [repo]) oid"
    and "LocalStorage_get_size st fs (os_path_join organization [repo]) oid \<noteq> Inr sz"
  shows "download url fs self organization repo oid sz =
     Inr [(''oid'', PStr oid), (''size'', PInt sz),
          (''error'', PDict [(''code'', PInt 422),
                             (''message'', PStr ''Object size does not match'')])]"
proof -
  obtain b :: bytes where "LocalStorage_get_size st fs (os_path_join organization [repo]) oid =
      Inr (int (length b))"
    using get_size_of_existing [OF assms(2)] by blast
  with assms show ?thesis by (simp add: download_def)
qed

lemma download_match:
  assumes "storage self = Some st"
    and "LocalStorage_exists st fs (os_path_join organization [repo]) oid"
    and "LocalStorage_get_size st fs (os_path_join organization [repo]) oid = Inr sz"
  shows "download url fs self organization repo oid sz =
     Inr [(''oid'', PStr oid), (''size'', PInt sz), (''authenticated'', PBool True),
          (''actions'', PDict
             [(''download'', PDict
                [(''href'', PStr (get_storage_url url ''get'' organization repo (Some oid))),
                 (''header'', basic_auth_header),
                 (''expires_in'', PInt (action_lifetime self))])])]"
  using assms by (simp add: download_def dict_update_def)

lemma upload_nothing_to_do:
  assumes "storage self = Some st"
    and "LocalStorage_exists st fs (os_path_join organization [repo]) oid"
    and "LocalStorage_get_size st fs (os_path_join organization [repo]) oid = Inr sz"
  shows "upload url fs self organization repo oid sz =
     Inr [(''oid'', PStr oid), (''size'', PInt sz), (''authenticated'', PBool True)]"
  using assms by (simp add: upload_def)

lemma upload_needed:
  assumes "storage self = Some st"
    and "\<not> LocalStorage_exists st fs (os_path_join organization [repo]) oid \<or>
         LocalStorage_get_size st fs (os_path_join organization [repo]) oid \<noteq> Inr sz"
  shows "upload url fs self organization repo oid sz =
     Inr [(''oid'', PStr oid), (''size'', PInt sz), (''authenticated'', PBool True),
          (''actions'', PDict
             [(''upload'', PDict
                [(''href'', PStr (get_storage_url url ''put'' organization repo (Some oid))),
                 (''header'', basic_auth_header),
                 (''expires_in'', PInt (action_lifetime self))]),
              (''verify'', PDict
                [(''href'', PStr (get_storage_url url ''verify'' organization repo None)),
                 (''header'', basic_auth_header),
                 (''expires_in'', PInt (action_lifetime self))])])]"
proof (cases "LocalStorage_exists st fs (os_path_join organization [repo]) oid")
  case False
  with assms(1) show ?thesis by (simp add: upload_def)
next
  case True
  then obtain b :: bytes where "LocalStorage_get_size st fs (os_path_join organization [repo]) oid =
      Inr (int (length b))"
    using get_size_of_existing by blast
  with True assms show ?thesis by (simp add: upload_def)
qed


text \<open>The example file system holds \<open>abc\<close>, of five bytes, and no \<open>zzz\<close>.\<close>

lemma example_exists:
  "LocalStorage_exists example_storage example_fs (os_path_join ''org'' [''repo'']) ''abc''"
  by (simp add: LocalStorage_exists_def LocalStorage_get_path_def example_storage_def
      example_fs_def os_path_join_def join_step_def startswith_def endswith_def
      os_path_isfile_def stat_def rstrip_sep_def)

lemma example_size:
  "LocalStorage_get_size example_storage example_fs (os_path_join ''org'' [''repo'']) ''abc'' = Inr 5"
  by (simp add: LocalStorage_get_size_def LocalStorage_exists_def LocalStorage_get_path_def example_storage_def
      example_fs_def os_path_join_def join_step_def startswith_def endswith_def
      os_path_isfile_def os_path_getsize_def stat_def rstrip_sep_def)

lemma example_missing:
  "\<not> LocalStorage_exists example_storage example_fs (os_path_join ''org'' [''repo'']) ''zzz''"
  by (simp add: LocalStorage_exists_def LocalStorage_get_path_def example_storage_def
      example_fs_def os_path_join_def join_step_def startswith_def endswith_def
      os_path_isfile_def stat_def rstrip_sep_def)


lemma example_size_differs:
  "LocalStorage_get_size example_storage example_fs (os_path_join ''org'' [''repo'']) ''abc'' \<noteq> Inr 7"
  by (simp add: example_size)

text \<open>
  C1. With a storage in place, \<open>download\<close> answers for every organization, repo, oid and
  size: an error of code 404 and message "Object does not exist" when the storage reports
  the object missing (whatever the declared size, so a missing object is never reported as
  a size mismatch); an error of code 422 and message "Object size does not match" when the
  object exists and its stored size differs from the declared one; otherwise a response
  whose actions are the single action \<open>download\<close> and whose \<open>authenticated\<close> is true. A
  response carries actions only if the object exists with the declared size.
\<close>

theorem download_decision:
  assumes "storage self = Some st"
  shows "(\<not> LocalStorage_exists st fs (os_path_join organization [repo]) oid \<longrightarrow>
            (\<exists>r. download url fs self organization repo oid sz = Inr r \<and>
                 dict_get r ''error'' =
                   Some (PDict [(''code'', PInt 404), (''message'', PStr ''Object does not exist'')]) \<and>
                 \<not> has_key r ''actions''))
       \<and> (LocalStorage_exists st fs (os_path_join organization [repo]) oid \<and>
          LocalStorage_get_size st fs (os_path_join organization [repo]) oid \<noteq> Inr sz \<longrightarrow>
            (\<exists>r. download url fs self organization repo oid sz = Inr r \<and>
                 dict_get r ''error'' =
                   Some (PDict [(''code'', PInt 422),
                                (''message'', PStr ''Object size does not match'')]) \<and>
                 \<not> has_key r ''actions''))
       \<and> (LocalStorage_exists st fs (os_path_join organization [repo]) oid \<and>
          LocalStorage_get_size st fs (os_path_join organization [repo]) oid = Inr sz \<longrightarrow>
            (\<exists>r d. download url fs self organization repo oid sz = Inr r \<and>
                 dict_get r ''actions'' = Some (PDict [(''download'', d)]) \<and>
                 dict_get r ''authenticated'' = Some (PBool True) \<and>
                 \<not> has_key r ''error''))
       \<and> (\<forall>r. download url fs self organization repo oid sz = Inr r \<and> has_key r ''actions'' \<longrightarrow>
            LocalStorage_exists st fs (os_path_join organization [repo]) oid \<and>
            LocalStorage_get_size st fs (os_path_join organization [repo]) oid = Inr sz)"
proof (intro conjI impI allI)
  assume "\<not> LocalStorage_exists st fs (os_path_join organization [repo]) oid"
  from download_missing [OF assms this]
  show "\<exists>r. download url fs self organization repo oid sz = Inr r \<and>
          dict_get r ''error'' =
            Some (PDict [(''code'', PInt 404), (''message'', PStr ''Object does not exist'')]) \<and>
          \<not> has_key r ''actions''"
    by (simp add: dict_get_def has_key_def)
next
  assume "LocalStorage_exists st fs (os_path_join organization [repo]) oid \<and>
          LocalStorage_get_size st fs (os_path_join organization [repo]) oid \<noteq> Inr sz"
  then have "download url fs self organization repo oid sz =
     Inr [(''oid'', PStr oid), (''size'', PInt sz),
          (''error'', PDict [(''code'', PInt 422),
                             (''message'', PStr ''Object size does not match'')])]"
    using download_mismatch [OF assms] by blast
  then show "\<exists>r. download url fs self organization repo oid sz = Inr r \<and>
          dict_get r ''error'' =
            Some (PDict [(''code'', PInt 422), (''message'', PStr ''Object size does not match'')]) \<and>
          \<not> has_key r ''actions''"
    by (simp add: dict_get_def has_key_def)
next
  assume "LocalStorage_exists st fs (os_path_join organization [repo]) oid \<and>
          LocalStorage_get_size st fs (os_path_join organization [repo]) oid = Inr sz"
  then have "download url fs self organization repo oid sz =
     Inr [(''oid'', PStr oid), (''size'', PInt sz), (''authenticated'', PBool True),
          (''actions'', PDict
             [(''download'', PDict
                [(''href'', PStr (get_storage_url url ''get'' organization repo (Some oid))),
                 (''header'', basic_auth_header),
                 (''expires_in'', PInt (action_lifetime self))])])]"
    using download_match [OF assms] by blast
  then show "\<exists>r d. download url fs self organization repo oid sz = Inr r \<and>
          dict_get r ''actions'' = Some (PDict [(''download'', d)]) \<and>
          dict_get r ''authenticated'' = Some (PBool True) \<and>
          \<not> has_key r ''error''"
    by (simp add: dict_get_def has_key_def)
next
  fix r
  assume a: "download url fs self organization repo oid sz = Inr r \<and> has_key r ''actions''"
  show "LocalStorage_exists st fs (os_path_join organization [repo]) oid"
  proof (rule ccontr)
    assume "\<not> LocalStorage_exists st fs (os_path_join organization [repo]) oid"
    from download_missing [OF assms this, of url sz] a show False
      by (auto simp: dict_get_def has_key_def)
  qed
next
  fix r
  assume a: "download url fs self organization repo oid sz = Inr r \<and> has_key r ''actions''"
  show "LocalStorage_get_size st fs (os_path_join organization [repo]) oid = Inr sz"
  proof (rule ccontr)
    assume n: "LocalStorage_get_size st fs (os_path_join organization [repo]) oid \<noteq> Inr sz"
    show False
    proof (cases "LocalStorage_exists st fs (os_path_join organization [repo]) oid")
      case True
      from download_mismatch [OF assms True n, of url] a show False
        by (auto simp: dict_get_def has_key_def)
    next
      case False
      from download_missing [OF assms False, of url sz] a show False
        by (auto simp: dict_get_def has_key_def)
    qed
  qed
qed


theorem download_decision_witness:
  "storage example_adapter = Some example_storage
   \<and> \<not> LocalStorage_exists example_storage example_fs (os_path_join ''org'' [''repo'']) ''zzz''
   \<and> (\<exists>r. download example_url_for example_fs example_adapter ''org'' ''repo'' ''zzz'' 5 = Inr r \<and>
          dict_get r ''error'' =
            Some (PDict [(''code'', PInt 404), (''message'', PStr ''Object does not exist'')]) \<and>
          \<not> has_key r ''actions'')
   \<and> LocalStorage_exists example_storage example_fs (os_path_join ''org'' [''repo'']) ''abc''
   \<and> LocalStorage_get_size example_storage example_fs (os_path_join ''org'' [''repo'']) ''abc'' \<noteq> Inr 7
   \<and> (\<exists>r. download example_url_for example_fs example_adapter ''org'' ''repo'' ''abc'' 7 = Inr r \<and>
          dict_get r ''error'' =
            Some (PDict [(''code'', PInt 422), (''message'', PStr ''Object size does not match'')]) \<and>
          \<not> has_key r ''actions'')
   \<and> LocalStorage_get_size example_storage example_fs (os_path_join ''org'' [''repo'']) ''abc'' = Inr 5
   \<and> (\<exists>r d. download example_url_for example_fs example_adapter ''org'' ''repo'' ''abc'' 5 = Inr r \<and>
          dict_get r ''actions'' = Some (PDict [(''download'', d)]) \<and>
          dict_get r ''authenticated'' = Some (PBool True) \<and>
          \<not> has_key r ''error'')"
proof -
  have h: "storage example_adapter = Some example_storage"
    by (simp add: example_adapter_def)
  note t = download_decision [OF h, where fs = example_fs and organization = "''org''"
      and repo = "''repo''" and url = example_url_for]
  from t [of "''zzz''" 5] example_missing
  have c1: "\<exists>r. download example_url_for example_fs example_adapter ''org'' ''repo'' ''zzz'' 5 = Inr r \<and>
          dict_get r ''error'' =
            Some (PDict [(''code'', PInt 404), (''message'', PStr ''Object does not exist'')]) \<and>
          \<not> has_key r ''actions''"
    by blast
  from t [of "''abc''" 7] example_exists example_size_differs
  have c2: "\<exists>r. download example_url_for example_fs example_adapter ''org'' ''repo'' ''abc'' 7 = Inr r \<and>
          dict_get r ''error'' =
            Some (PDict [(''code'', PInt 422), (''message'', PStr ''Object size does not match'')]) \<and>
          \<not> has_key r ''actions''"
    by blast
  from t [of "''abc''" 5] example_exists example_size
  have c3: "\<exists>r d. download example_url_for example_fs example_adapter ''org'' ''repo'' ''abc'' 5 = Inr r \<and>
          dict_get r ''actions'' = Some (PDict [(''download'', d)]) \<and>
          dict_get r ''authenticated'' = Some (PBool True) \<and>
          \<not> has_key r ''error''"
    by blast
  from h example_missing c1 example_exists example_size_differs c2 example_size c3
  show ?thesis by blast
qed

text \<open>
  C2. With a storage in place, \<open>upload\<close> answers for every organization, repo, oid and
  size: a response with neither \<open>actions\<close> nor \<open>error\<close> when the object exists and its
  stored size is the declared one; in every other case a response without \<open>error\<close> whose
  \<open>actions\<close> has exactly the keys \<open>upload\<close> and \<open>verify\<close>.
\<close>

theorem upload_decision:
  assumes "storage self = Some st"
  shows "(LocalStorage_exists st fs (os_path_join organization [repo]) oid \<and>
          LocalStorage_get_size st fs (os_path_join organization [repo]) oid = Inr sz \<longrightarrow>
            (\<exists>r. upload url fs self organization repo oid sz = Inr r \<and>
                 \<not> has_key r ''actions'' \<and> \<not> has_key r ''error''))
       \<and> (\<not> (LocalStorage_exists st fs (os_path_join organization [repo]) oid \<and>
             LocalStorage_get_size st fs (os_path_join organization [repo]) oid = Inr sz) \<longrightarrow>
            (\<exists>r a. upload url fs self organization repo oid sz = Inr r \<and>
                 dict_get r ''actions'' = Some (PDict a) \<and>
                 keys a = [''upload'', ''verify''] \<and>
                 \<not> has_key r ''error''))"
proof (intro conjI impI)
  assume "LocalStorage_exists st fs (os_path_join organization [repo]) oid \<and>
          LocalStorage_get_size st fs (os_path_join organization [repo]) oid = Inr sz"
  then have "upload url fs self organization repo oid sz =
     Inr [(''oid'', PStr oid), (''size'', PInt sz), (''authenticated'', PBool True)]"
    using upload_nothing_to_do [OF assms] by blast
  then show "\<exists>r. upload url fs self organization repo oid sz = Inr r \<and>
                 \<not> has_key r ''actions'' \<and> \<not> has_key r ''error''"
    by (simp add: has_key_def dict_get_def)
next
  assume "\<not> (LocalStorage_exists st fs (os_path_join organization [repo]) oid \<and>
             LocalStorage_get_size st fs (os_path_join organization [repo]) oid = Inr sz)"
  then have "\<not> LocalStorage_exists st fs (os_path_join organization [repo]) oid \<or>
         LocalStorage_get_size st fs (os_path_join organization [repo]) oid \<noteq> Inr sz"
    by blast
  from upload_needed [OF assms this, of url]
  show "\<exists>r a. upload url fs self organization repo oid sz = Inr r \<and>
                 dict_get r ''actions'' = Some (PDict a) \<and>
                 keys a = [''upload'', ''verify''] \<and>
                 \<not> has_key r ''error''"
    by (simp add: has_key_def dict_get_def keys_def)
qed

theorem upload_decision_witness:
  "storage example_adapter = Some example_storage
   \<and> LocalStorage_exists example_storage example_fs (os_path_join ''org'' [''repo'']) ''abc''
   \<and> LocalStorage_get_size example_storage example_fs (os_path_join ''org'' [''repo'']) ''abc'' = Inr 5
   \<and> (\<exists>r. upload example_url_for example_fs example_adapter ''org'' ''repo'' ''abc'' 5 = Inr r \<and>
          \<not> has_key r ''actions'' \<and> \<not> has_key r ''error'')
   \<and> \<not> LocalStorage_exists example_storage example_fs (os_path_join ''org'' [''repo'']) ''zzz''
   \<and> (\<exists>r a. upload example_url_for example_fs example_adapter ''org'' ''repo'' ''zzz'' 5 = Inr r \<and>
          dict_get r ''actions'' = Some (PDict a) \<and>
          keys a = [''upload'', ''verify''] \<and>
          \<not> has_key r ''error'')"
proof -
  have h: "storage example_adapter = Some example_storage"
    by (simp add: example_adapter_def)
  note t = upload_decision [OF h, where fs = example_fs and organization = "''org''"
      and repo = "''repo''" and url = example_url_for]
  from t [of "''abc''" 5] example_exists example_size
  have c1: "\<exists>r. upload example_url_for example_fs example_adapter ''org'' ''repo'' ''abc'' 5 = Inr r \<and>
          \<not> has_key r ''actions'' \<and> \<not> has_key r ''error''"
    by blast
  from t [of "''zzz''" 5] example_missing
  have c2: "\<exists>r a. upload example_url_for example_fs example_adapter ''org'' ''repo'' ''zzz'' 5 = Inr r \<and>
          dict_get r ''actions'' = Some (PDict a) \<and>
          keys a = [''upload'', ''verify''] \<and>
          \<not> has_key r ''error''"
    by blast
  from h example_exists example_size c1 example_missing c2
  show ?thesis by blast
qed


text \<open>
  C3, as stated, fails: for an object that exists with the declared size, the response of
  \<open>upload\<close> has neither \<open>actions\<close> nor \<open>error\<close>.
\<close>

theorem response_fields_counterexample:
  "upload example_url_for example_fs example_adapter ''org'' ''repo'' ''abc'' 5 =
     Inr [(''oid'', PStr ''abc''), (''size'', PInt 5), (''authenticated'', PBool True)]
   \<and> \<not> has_key [(''oid'', PStr ''abc''), (''size'', PInt 5), (''authenticated'', PBool True)] ''actions''
   \<and> \<not> has_key [(''oid'', PStr ''abc''), (''size'', PInt 5), (''authenticated'', PBool True)] ''error''"
proof -
  have "storage example_adapter = Some example_storage"
    by (simp add: example_adapter_def)
  from upload_nothing_to_do [OF this example_exists example_size]
  show ?thesis by (simp add: has_key_def dict_get_def)
qed

text \<open>
  C3, amended. With a storage in place, every response of \<open>download\<close> has exactly one of
  \<open>actions\<close> and \<open>error\<close>; every response of \<open>upload\<close> has no \<open>error\<close>, and has
  \<open>actions\<close> unless the object exists with the declared size, in which case it has neither.
\<close>

theorem response_fields:
  assumes "storage self = Some st"
  shows "(\<exists>r. download url fs self organization repo oid sz = Inr r \<and>
              (has_key r ''actions'' \<noteq> has_key r ''error''))
       \<and> (\<exists>r. upload url fs self organization repo oid sz = Inr r \<and>
              \<not> has_key r ''error'' \<and>
              (has_key r ''actions'' \<longleftrightarrow>
                 \<not> (LocalStorage_exists st fs (os_path_join organization [repo]) oid \<and>
                    LocalStorage_get_size st fs (os_path_join organization [repo]) oid = Inr sz)))"
proof (rule conjI)
  let ?E = "LocalStorage_exists st fs (os_path_join organization [repo]) oid"
  let ?S = "LocalStorage_get_size st fs (os_path_join organization [repo]) oid"
  consider (missing) "\<not> ?E" | (mismatch) "?E" "?S \<noteq> Inr sz" | (match) "?E" "?S = Inr sz"
    by blast
  then show "\<exists>r. download url fs self organization repo oid sz = Inr r \<and>
              (has_key r ''actions'' \<noteq> has_key r ''error'')"
  proof cases
    case missing
    from download_missing [OF assms this, of url sz] show ?thesis
      by (simp add: has_key_def dict_get_def)
  next
    case mismatch
    from download_mismatch [OF assms this, of url] show ?thesis
      by (simp add: has_key_def dict_get_def)
  next
    case match
    from download_match [OF assms this, of url] show ?thesis
      by (simp add: has_key_def dict_get_def)
  qed
next
  let ?E = "LocalStorage_exists st fs (os_path_join organization [repo]) oid"
  let ?S = "LocalStorage_get_size st fs (os_path_join organization [repo]) oid"
  show "\<exists>r. upload url fs self organization repo oid sz = Inr r \<and>
              \<not> has_key r ''error'' \<and>
              (has_key r ''actions'' \<longleftrightarrow> \<not> (?E \<and> ?S = Inr sz))"
  proof (cases "?E \<and> ?S = Inr sz")
    case True
    then have "upload url fs self organization repo oid sz =
        Inr [(''oid'', PStr oid), (''size'', PInt sz), (''authenticated'', PBool True)]"
      using upload_nothing_to_do [OF assms] by blast
    with True show ?thesis by (simp add: has_key_def dict_get_def)
  next
    case False
    then have "\<not> ?E \<or> ?S \<noteq> Inr sz" by blast
    from upload_needed [OF assms this, of url] False show ?thesis
      by (simp add: has_key_def dict_get_def)
  qed
qed

theorem response_fields_witness:
  "storage example_adapter = Some example_storage
   \<and> (\<exists>r. download example_url_for example_fs example_adapter ''org'' ''repo'' ''abc'' 5 = Inr r \<and>
          (has_key r ''actions'' \<noteq> has_key r ''error''))
   \<and> (\<exists>r. upload example_url_for example_fs example_adapter ''org'' ''repo'' ''abc'' 5 = Inr r \<and>
          \<not> has_key r ''error'' \<and> \<not> has_key r ''actions'')"
proof -
  have h: "storage example_adapter = Some example_storage"
    by (simp add: example_adapter_def)
  from response_fields [OF h, of example_url_for example_fs "''org''" "''repo''" "''abc''" 5]
    example_exists example_size h
  show ?thesis by simp
qed


section \<open>The cloud backend\<close>

text \<open>The signed URL when the dates are in range.\<close>

lemma get_signed_url_in_range:
  assumes "\<bar>expires_in div 86400\<bar> \<le> 999999999"
    and "0 < 719163 + (now + expires_in) div 86400"
    and "719163 + (now + expires_in) div 86400 \<le> 3652059"
  shows "get_signed_url generate_signed_url now self prefix oid expires_in filename =
     generate_signed_url (storage_client self) (bucket_name self) (now + expires_in) ''v4''"
  using assms by (simp add: get_signed_url_def timedelta_seconds_def datetime_add_def Let_def)

lemma get_signed_url_success:
  assumes "get_signed_url generate_signed_url now self prefix oid expires_in filename = Inr url"
  shows "generate_signed_url (storage_client self) (bucket_name self) (now + expires_in) ''v4'' = Inr url"
  using assms
  by (simp add: get_signed_url_def timedelta_seconds_def datetime_add_def Let_def
      split: if_splits)

lemma example_url:
  "example_signer (storage_client example_gcs) (bucket_name example_gcs) (1700000000 + 600) ''v4'' =
     Inr ''https://storage.example/lfs-bucket?version=v4&expires=1700000600''"
  by (simp add: example_signer_def example_gcs_def decimal.simps)

text \<open>
  C4 does not hold of the code: the content-disposition directive is computed and never
  handed to the signing call, so for every signer the URL, and with it the descriptors of
  \<open>get_download_action\<close> and \<open>get_upload_action\<close>, are the same with a file name as
  without one. With the example signer, the URL issued for the file name \<open>report.pdf\<close>
  is the one written out below, which names no file.
\<close>

theorem signed_url_ignores_filename:
  "get_signed_url generate_signed_url now self prefix oid expires_in (Some filename) =
     get_signed_url generate_signed_url now self prefix oid expires_in None
   \<and> get_download_action generate_signed_url now self prefix oid sz expires_in
         (Some [(''filename'', filename)]) =
       get_download_action generate_signed_url now self prefix oid sz expires_in None
   \<and> get_upload_action generate_signed_url now self prefix oid sz expires_in
         (Some [(''filename'', filename)]) =
       get_upload_action generate_signed_url now self prefix oid sz expires_in None
   \<and> get_download_action example_signer 1700000000 example_gcs ''org/repo'' ''abc'' 5 600
         (Some [(''filename'', ''report.pdf'')]) =
       Inr [(''actions'', PDict
              [(''download'', PDict
                 [(''href'', PStr ''https://storage.example/lfs-bucket?version=v4&expires=1700000600''),
                  (''header'', PDict []),
                  (''expires_in'', PInt 900)])])]"
proof -
  have a: "\<And>f. get_signed_url generate_signed_url now self prefix oid expires_in f =
      get_signed_url generate_signed_url now self prefix oid expires_in None"
    by (simp add: get_signed_url_def Let_def split: sum.splits)
  have b: "get_signed_url example_signer 1700000000 example_gcs ''org/repo'' ''abc'' 600
      (extra_filename (Some [(''filename'', ''report.pdf'')])) =
      Inr ''https://storage.example/lfs-bucket?version=v4&expires=1700000600''"
    using example_url by (simp add: get_signed_url_in_range)
  show ?thesis
    unfolding get_download_action_def get_upload_action_def Let_def a [of "Some filename"]
      a [of "extra_filename (Some [(''filename'', filename)])"]
      a [of "extra_filename None"] b
    by simp
qed

text \<open>
  C9. Every descriptor that \<open>get_download_action\<close> returns has \<open>expires_in\<close> 900, whatever
  the argument, and its \<open>href\<close> is the URL signed for the expiration \<open>now + expires_in\<close>;
  the descriptor of \<open>get_upload_action\<close> carries the argument. Both are returned whenever
  the dates are in range and the signing succeeds.
\<close>

theorem download_action_expiry:
  "(\<forall>d. get_download_action generate_signed_url now self prefix oid sz expires_in extra = Inr d \<longrightarrow>
        (\<exists>url. generate_signed_url (storage_client self) (bucket_name self)
                  (now + expires_in) ''v4'' = Inr url \<and>
               d = [(''actions'', PDict
                      [(''download'', PDict
                         [(''href'', PStr url),
                          (''header'', PDict []),
                          (''expires_in'', PInt 900)])])]))
   \<and> (\<forall>d. get_upload_action generate_signed_url now self prefix oid sz expires_in extra = Inr d \<longrightarrow>
        (\<exists>url. generate_signed_url (storage_client self) (bucket_name self)
                  (now + expires_in) ''v4'' = Inr url \<and>
               d = [(''actions'', PDict
                      [(''upload'', PDict
                         [(''href'', PStr url),
                          (''header'', PDict [(''x-ms-blob-type'', PStr ''BlockBlob'')]),
                          (''expires_in'', PInt expires_in)])])]))
   \<and> (\<bar>expires_in div 86400\<bar> \<le> 999999999 \<and>
      0 < 719163 + (now + expires_in) div 86400 \<and>
      719163 + (now + expires_in) div 86400 \<le> 3652059 \<and>
      generate_signed_url (storage_client self) (bucket_name self) (now + expires_in) ''v4'' = Inr u \<longrightarrow>
        get_download_action generate_signed_url now self prefix oid sz expires_in extra =
          Inr [(''actions'', PDict
                 [(''download'', PDict
                    [(''href'', PStr u),
                     (''header'', PDict []),
                     (''expires_in'', PInt 900)])])] \<and>
        get_upload_action generate_signed_url now self prefix oid sz expires_in extra =
          Inr [(''actions'', PDict
                 [(''upload'', PDict
                    [(''href'', PStr u),
                     (''header'', PDict [(''x-ms-blob-type'', PStr ''BlockBlob'')]),
                     (''expires_in'', PInt expires_in)])])])"
proof (intro conjI allI impI)
  fix d
  assume "get_download_action generate_signed_url now self prefix oid sz expires_in extra = Inr d"
  then show "\<exists>url. generate_signed_url (storage_client self) (bucket_name self)
                  (now + expires_in) ''v4'' = Inr url \<and>
               d = [(''actions'', PDict
                      [(''download'', PDict
                         [(''href'', PStr url),
                          (''header'', PDict []),
                          (''expires_in'', PInt 900)])])]"
    by (auto simp: get_download_action_def Let_def split: sum.splits
        dest: get_signed_url_success)
next
  fix d
  assume "get_upload_action generate_signed_url now self prefix oid sz expires_in extra = Inr d"
  then show "\<exists>url. generate_signed_url (storage_client self) (bucket_name self)
                  (now + expires_in) ''v4'' = Inr url \<and>
               d = [(''actions'', PDict
                      [(''upload'', PDict
                         [(''href'', PStr url),
                          (''header'', PDict [(''x-ms-blob-type'', PStr ''BlockBlob'')]),
                          (''expires_in'', PInt expires_in)])])]"
    by (auto simp: get_upload_action_def Let_def split: sum.splits
        dest: get_signed_url_success)
next
  assume a: "\<bar>expires_in div 86400\<bar> \<le> 999999999 \<and>
      0 < 719163 + (now + expires_in) div 86400 \<and>
      719163 + (now + expires_in) div 86400 \<le> 3652059 \<and>
      generate_signed_url (storage_client self) (bucket_name self) (now + expires_in) ''v4'' = Inr u"
  then show "get_download_action generate_signed_url now self prefix oid sz expires_in extra =
          Inr [(''actions'', PDict
                 [(''download'', PDict
                    [(''href'', PStr u),
                     (''header'', PDict []),
                     (''expires_in'', PInt 900)])])]"
    by (simp add: get_download_action_def Let_def get_signed_url_in_range)
  from a show "get_upload_action generate_signed_url now self prefix oid sz expires_in extra =
          Inr [(''actions'', PDict
                 [(''upload'', PDict
                    [(''href'', PStr u),
                     (''header'', PDict [(''x-ms-blob-type'', PStr ''BlockBlob'')]),
                     (''expires_in'', PInt expires_in)])])]"
    by (simp add: get_upload_action_def Let_def get_signed_url_in_range)
qed

theorem download_action_expiry_witness:
  "\<bar>(600::int) div 86400\<bar> \<le> 999999999
   \<and> (0::int) < 719163 + (1700000000 + 600) div 86400
   \<and> (719163::int) + (1700000000 + 600) div 86400 \<le> 3652059
   \<and> example_signer (storage_client example_gcs) (bucket_name example_gcs) (1700000000 + 600) ''v4'' =
       Inr ''https://storage.example/lfs-bucket?version=v4&expires=1700000600''
   \<and> get_download_action example_signer 1700000000 example_gcs ''org/repo'' ''abc'' 5 600 None =
       Inr [(''actions'', PDict
              [(''download'', PDict
                 [(''href'', PStr ''https://storage.example/lfs-bucket?version=v4&expires=1700000600''),
                  (''header'', PDict []),
                  (''expires_in'', PInt 900)])])]
   \<and> get_upload_action example_signer 1700000000 example_gcs ''org/repo'' ''abc'' 5 600 None =
       Inr [(''actions'', PDict
              [(''upload'', PDict
                 [(''href'', PStr ''https://storage.example/lfs-bucket?version=v4&expires=1700000600''),
                  (''header'', PDict [(''x-ms-blob-type'', PStr ''BlockBlob'')]),
                  (''expires_in'', PInt 600)])])]"
proof -
  have r: "\<bar>(600::int) div 86400\<bar> \<le> 999999999
     \<and> (0::int) < 719163 + (1700000000 + 600) div 86400
     \<and> (719163::int) + (1700000000 + 600) div 86400 \<le> 3652059"
    by simp
  from download_action_expiry [of example_signer 1700000000 example_gcs "''org/repo''" "''abc''"
      5 600 None "''https://storage.example/lfs-bucket?version=v4&expires=1700000600''"]
    r example_url
  show ?thesis by blast
qed


text \<open>The state and the outcome of \<open>create_bucket\<close> and of \<open>_init_container\<close>.\<close>

lemma create_bucket_requests:
  "create_requests (fst (create_bucket c b)) = create_requests c @ [b]"
  by (simp add: create_bucket_def Let_def split: option.splits)

lemma init_container_eq:
  "init_container self c =
     (fst (create_bucket c (bucket_name self)),
      if snd (create_bucket c (bucket_name self)) = Inl Conflict then Inr ()
      else snd (create_bucket c (bucket_name self)))"
  by (cases "create_bucket c (bucket_name self)")
     (auto simp: init_container_def split: sum.splits error.splits)

lemma example_cloud_bucket:
  "create_failure example_cloud = None \<and> buckets example_cloud ''lfs-bucket'' \<noteq> None"
  by (simp add: example_cloud_def)

text \<open>
  C8. Initialization sends exactly one request to create the configured bucket. When the
  answer is \<open>Conflict\<close> (the bucket exists, or the service says so), construction succeeds
  and the store is unchanged; when the bucket is missing and nothing fails, it is created;
  any other failure leaves the constructor as that failure.
\<close>

theorem init_container_outcomes:
  "create_requests (fst (init_container self c)) = create_requests c @ [bucket_name self]
   \<and> (create_failure c = Some Conflict \<or>
      (create_failure c = None \<and> buckets c (bucket_name self) \<noteq> None) \<longrightarrow>
        snd (init_container self c) = Inr () \<and>
        buckets (fst (init_container self c)) = buckets c)
   \<and> (create_failure c = None \<and> buckets c (bucket_name self) = None \<longrightarrow>
        snd (init_container self c) = Inr () \<and>
        buckets (fst (init_container self c)) = (buckets c)(bucket_name self \<mapsto> Map.empty))
   \<and> (\<forall>e. create_failure c = Some e \<and> e \<noteq> Conflict \<longrightarrow>
        snd (init_container self c) = Inl e)
   \<and> (\<forall>cl. from_service_account_json account_json_path = Inr cl \<longrightarrow>
        create_requests (fst (GoogleCloudBlobStorage_init from_service_account_json c bname
            account_json_path pprefix)) = create_requests c @ [bname] \<and>
        (create_failure c = Some Conflict \<or> create_failure c = None \<longrightarrow>
           snd (GoogleCloudBlobStorage_init from_service_account_json c bname
               account_json_path pprefix) =
             Inr \<lparr>bucket_name = bname, path_prefix = pprefix, storage_client = cl\<rparr>) \<and>
        (\<forall>e. create_failure c = Some e \<and> e \<noteq> Conflict \<longrightarrow>
           snd (GoogleCloudBlobStorage_init from_service_account_json c bname
               account_json_path pprefix) = Inl e))"
proof (intro conjI allI impI)
  show "create_requests (fst (init_container self c)) = create_requests c @ [bucket_name self]"
    by (simp add: init_container_eq create_bucket_requests)
next
  assume "create_failure c = Some Conflict \<or>
      (create_failure c = None \<and> buckets c (bucket_name self) \<noteq> None)"
  then show "snd (init_container self c) = Inr ()"
    and "buckets (fst (init_container self c)) = buckets c"
    by (auto simp: init_container_eq create_bucket_def Let_def)
next
  assume "create_failure c = None \<and> buckets c (bucket_name self) = None"
  then show "snd (init_container self c) = Inr ()"
    and "buckets (fst (init_container self c)) = (buckets c)(bucket_name self \<mapsto> Map.empty)"
    by (auto simp: init_container_eq create_bucket_def Let_def)
next
  fix e
  assume "create_failure c = Some e \<and> e \<noteq> Conflict"
  then show "snd (init_container self c) = Inl e"
    by (auto simp: init_container_eq create_bucket_def Let_def)
next
  fix cl
  assume cl: "from_service_account_json account_json_path = Inr cl"
  let ?self = "\<lparr>bucket_name = bname, path_prefix = pprefix, storage_client = cl\<rparr>"
  have init: "GoogleCloudBlobStorage_init from_service_account_json c bname account_json_path pprefix =
      (fst (init_container ?self c),
       case snd (init_container ?self c) of Inl e \<Rightarrow> Inl e | Inr u \<Rightarrow> Inr ?self)"
    using cl
    by (cases "init_container ?self c")
       (simp add: GoogleCloudBlobStorage_init_def Let_def split: sum.splits)
  show "create_requests (fst (GoogleCloudBlobStorage_init from_service_account_json c bname
            account_json_path pprefix)) = create_requests c @ [bname]"
    by (simp add: init init_container_eq create_bucket_requests)
  show "snd (GoogleCloudBlobStorage_init from_service_account_json c bname
               account_json_path pprefix) = Inr ?self"
    if "create_failure c = Some Conflict \<or> create_failure c = None"
    using that by (auto simp: init init_container_eq create_bucket_def Let_def)
  show "snd (GoogleCloudBlobStorage_init from_service_account_json c bname
               account_json_path pprefix) = Inl e"
    if "create_failure c = Some e \<and> e \<noteq> Conflict" for e
    using that by (auto simp: init init_container_eq create_bucket_def Let_def)
qed

theorem init_container_outcomes_witness:
  "create_failure example_cloud = None
   \<and> buckets example_cloud (bucket_name example_gcs) \<noteq> None
   \<and> snd (init_container example_gcs example_cloud) = Inr ()
   \<and> create_requests (fst (init_container example_gcs example_cloud)) = [''lfs-bucket'']
   \<and> create_failure (example_cloud\<lparr>create_failure := Some (ServiceError ''forbidden'')\<rparr>) =
       Some (ServiceError ''forbidden'')
   \<and> ServiceError ''forbidden'' \<noteq> Conflict
   \<and> snd (init_container example_gcs
            (example_cloud\<lparr>create_failure := Some (ServiceError ''forbidden'')\<rparr>)) =
       Inl (ServiceError ''forbidden'')
   \<and> example_from_json ''account.json'' = Inr (Client ''account.json'')
   \<and> snd (GoogleCloudBlobStorage_init example_from_json example_cloud ''lfs-bucket''
            ''account.json'' (Some ''/p'')) = Inr example_gcs
   \<and> snd (GoogleCloudBlobStorage_init example_from_json
            (example_cloud\<lparr>create_failure := Some (ServiceError ''forbidden'')\<rparr>) ''lfs-bucket''
            ''account.json'' (Some ''/p'')) = Inl (ServiceError ''forbidden'')"
proof -
  have j: "example_from_json ''account.json'' = Inr (Client ''account.json'')"
    by (simp add: example_from_json_def)
  have f: "create_failure (example_cloud\<lparr>create_failure := Some (ServiceError ''forbidden'')\<rparr>) =
       Some (ServiceError ''forbidden'')"
    by simp
  have b: "bucket_name example_gcs = ''lfs-bucket''"
    by (simp add: example_gcs_def)
  have g: "\<lparr>bucket_name = ''lfs-bucket'', path_prefix = Some ''/p'',
            storage_client = Client ''account.json''\<rparr> = example_gcs"
    by (simp add: example_gcs_def)
  note t1 = init_container_outcomes [of example_gcs example_cloud example_from_json
      "''account.json''" "''lfs-bucket''" "Some ''/p''"]
  note t2 = init_container_outcomes [of example_gcs
      "example_cloud\<lparr>create_failure := Some (ServiceError ''forbidden'')\<rparr>" example_from_json
      "''account.json''" "''lfs-bucket''" "Some ''/p''"]
  have c: "create_requests example_cloud = []"
    by (simp add: example_cloud_def)
  from t1 t2 example_cloud_bucket j f b g c show ?thesis
    by (simp add: example_cloud_def)
qed


section \<open>Sizes of missing and present objects\<close>






section \<open>Storage paths\<close>

lemma join_step_absolute: "startswith b ''/'' \<Longrightarrow> join_step p b = b"
  by (simp add: join_step_def)

lemma join_step_relative: "\<not> startswith b ''/'' \<Longrightarrow> join_step p b = with_sep p @ b"
  by (simp add: join_step_def with_sep_def)

lemma startswith_sep_iff: "startswith s ''/'' \<longleftrightarrow> (\<exists>t. s = CHR ''/'' # t)"
  by (cases s) (auto simp: startswith_def)

lemma join_step_keeps_absolute:
  "startswith p ''/'' \<Longrightarrow> startswith (join_step p b) ''/''"
  by (auto simp: join_step_def startswith_sep_iff)

lemma storage_prefix_eq:
  "(case pp of None \<Rightarrow> [] | Some q \<Rightarrow> if q = [] then [] else if hd q = CHR ''/'' then tl q else q)
     = strip_leading_sep pp"
  by (cases pp) (auto simp: strip_leading_sep_def startswith_sep_iff neq_Nil_conv)

lemma get_blob_path_eq:
  "get_blob_path self prefix oid =
     join_step (join_step (strip_leading_sep (path_prefix self)) prefix) oid"
  by (simp add: get_blob_path_def os_path_join_def storage_prefix_eq)

lemma get_path_eq:
  "LocalStorage_get_path st prefix oid = join_step (join_step (path st) prefix) oid"
  by (simp add: LocalStorage_get_path_def os_path_join_def)

lemma relative_not_under:
  "startswith p ''/'' \<Longrightarrow> r \<noteq> [] \<Longrightarrow> \<not> startswith r ''/'' \<Longrightarrow> \<not> startswith p r"
  by (cases r; cases p) (auto simp: startswith_def)

text \<open>
  C6, as stated, fails: with the prefix \<open>/p\<close>, the namespace \<open>/org/repo\<close> and the oid
  \<open>abc\<close> the blob path is \<open>/org/repo/abc\<close>, which does not begin with the prefix;
  and \<open>LocalStorage\<close> with the root \<open>/p\<close> resolves the namespace \<open>org/repo\<close> and the
  oid \<open>abc\<close> to \<open>/p/org/repo/abc\<close>, the separator kept.
\<close>

theorem storage_path_layout_counterexample:
  "get_blob_path example_gcs ''/org/repo'' ''abc'' = ''/org/repo/abc''
   \<and> \<not> startswith (get_blob_path example_gcs ''/org/repo'' ''abc'') ''p''
   \<and> LocalStorage_get_path \<lparr>path = ''/p''\<rparr> ''org/repo'' ''abc'' = ''/p/org/repo/abc''"
  by (simp add: get_blob_path_def LocalStorage_get_path_def example_gcs_def os_path_join_def
      join_step_def startswith_def endswith_def)

text \<open>
  C6, amended. For a namespace and an oid that do not begin with the separator, the blob
  path is the configured prefix without one leading separator (nothing when no prefix is
  configured), then the namespace, then the oid, with a separator after each of the first
  two unless it is empty or ends with one; the path of \<open>LocalStorage\<close> is built the same
  way from the root as configured, nothing stripped.
\<close>

theorem storage_path_layout:
  assumes "\<not> startswith prefix ''/''" and "\<not> startswith oid ''/''"
  shows "get_blob_path self prefix oid =
           with_sep (with_sep (strip_leading_sep (path_prefix self)) @ prefix) @ oid
       \<and> LocalStorage_get_path st prefix oid = with_sep (with_sep (path st) @ prefix) @ oid"
  using assms by (simp add: get_blob_path_eq get_path_eq join_step_relative)

theorem storage_path_layout_witness:
  "\<not> startswith ''org/repo'' ''/'' \<and> \<not> startswith ''abc'' ''/''
   \<and> with_sep (with_sep (strip_leading_sep (Some ''/p'')) @ ''org/repo'') @ ''abc'' = ''p/org/repo/abc''
   \<and> get_blob_path example_gcs ''org/repo'' ''abc'' = ''p/org/repo/abc''
   \<and> LocalStorage_get_path example_storage ''org/repo'' ''abc'' = ''lfs-storage/org/repo/abc''"
proof -
  have h: "\<not> startswith ''org/repo'' ''/''" "\<not> startswith ''abc'' ''/''"
    by (simp_all add: startswith_def)
  have p: "path_prefix example_gcs = Some ''/p''" "path example_storage = ''lfs-storage''"
    by (simp_all add: example_gcs_def example_storage_def)
  have w: "with_sep (with_sep (strip_leading_sep (Some ''/p'')) @ ''org/repo'') @ ''abc'' = ''p/org/repo/abc''"
    "with_sep (with_sep ''lfs-storage'' @ ''org/repo'') @ ''abc'' = ''lfs-storage/org/repo/abc''"
    by (simp_all add: with_sep_def strip_leading_sep_def startswith_def endswith_def)
  from storage_path_layout [OF h, of example_gcs example_storage] h p w
  show ?thesis by simp
qed

text \<open>
  C10. A namespace that begins with the separator makes both joins drop the configured
  root or prefix, and an oid that begins with it makes them drop the namespace as well; the
  path then begins with the separator, so it does not lie under a root or prefix that is
  not empty and does not begin with one. Such inputs exist: the namespace \<open>/etc\<close> and the
  oid \<open>passwd\<close> give \<open>/etc/passwd\<close> under the root \<open>lfs-storage\<close> and under the prefix
  \<open>/p\<close>.
\<close>

theorem storage_path_escapes_root:
  "(startswith prefix ''/'' \<longrightarrow>
      LocalStorage_get_path st prefix oid = os_path_join prefix [oid] \<and>
      get_blob_path self prefix oid = os_path_join prefix [oid])
   \<and> (startswith oid ''/'' \<longrightarrow>
      LocalStorage_get_path st prefix oid = oid \<and> get_blob_path self prefix oid = oid)
   \<and> ((startswith prefix ''/'' \<or> startswith oid ''/'') \<and>
      path st \<noteq> [] \<and> \<not> startswith (path st) ''/'' \<longrightarrow>
        \<not> startswith (LocalStorage_get_path st prefix oid) (path st))
   \<and> ((startswith prefix ''/'' \<or> startswith oid ''/'') \<and>
      strip_leading_sep (path_prefix self) \<noteq> [] \<and>
      \<not> startswith (strip_leading_sep (path_prefix self)) ''/'' \<longrightarrow>
        \<not> startswith (get_blob_path self prefix oid) (strip_leading_sep (path_prefix self)))
   \<and> LocalStorage_get_path example_storage ''/etc'' ''passwd'' = ''/etc/passwd''
   \<and> \<not> startswith (LocalStorage_get_path example_storage ''/etc'' ''passwd'') (path example_storage)
   \<and> get_blob_path example_gcs ''/etc'' ''passwd'' = ''/etc/passwd''
   \<and> \<not> startswith (get_blob_path example_gcs ''/etc'' ''passwd'')
         (strip_leading_sep (path_prefix example_gcs))"
proof (intro conjI impI)
  assume "startswith prefix ''/''"
  then show "LocalStorage_get_path st prefix oid = os_path_join prefix [oid]"
    and "get_blob_path self prefix oid = os_path_join prefix [oid]"
    by (simp_all add: get_path_eq get_blob_path_eq join_step_absolute os_path_join_def)
next
  assume "startswith oid ''/''"
  then show "LocalStorage_get_path st prefix oid = oid"
    and "get_blob_path self prefix oid = oid"
    by (simp_all add: get_path_eq get_blob_path_eq join_step_absolute)
next
  assume a: "(startswith prefix ''/'' \<or> startswith oid ''/'') \<and>
      path st \<noteq> [] \<and> \<not> startswith (path st) ''/''"
  then have "startswith (LocalStorage_get_path st prefix oid) ''/''"
    by (auto simp: get_path_eq join_step_absolute intro: join_step_keeps_absolute)
  with a show "\<not> startswith (LocalStorage_get_path st prefix oid) (path st)"
    using relative_not_under by blast
next
  assume a: "(startswith prefix ''/'' \<or> startswith oid ''/'') \<and>
      strip_leading_sep (path_prefix self) \<noteq> [] \<and>
      \<not> startswith (strip_leading_sep (path_prefix self)) ''/''"
  then have "startswith (get_blob_path self prefix oid) ''/''"
    by (auto simp: get_blob_path_eq join_step_absolute intro: join_step_keeps_absolute)
  with a show "\<not> startswith (get_blob_path self prefix oid) (strip_leading_sep (path_prefix self))"
    using relative_not_under by blast
next
  show "LocalStorage_get_path example_storage ''/etc'' ''passwd'' = ''/etc/passwd''"
    by (simp add: LocalStorage_get_path_def example_storage_def os_path_join_def join_step_def
        startswith_def endswith_def)
  then show "\<not> startswith (LocalStorage_get_path example_storage ''/etc'' ''passwd'')
      (path example_storage)"
    by (simp add: example_storage_def startswith_def)
  show "get_blob_path example_gcs ''/etc'' ''passwd'' = ''/etc/passwd''"
    by (simp add: get_blob_path_def example_gcs_def os_path_join_def join_step_def
        startswith_def endswith_def)
  then show "\<not> startswith (get_blob_path example_gcs ''/etc'' ''passwd'')
         (strip_leading_sep (path_prefix example_gcs))"
    by (simp add: example_gcs_def startswith_def strip_leading_sep_def)
qed

theorem storage_path_escapes_root_witness:
  "startswith ''/etc'' ''/'' \<and> path example_storage \<noteq> [] \<and> \<not> startswith (path example_storage) ''/''
   \<and> LocalStorage_get_path example_storage ''/etc'' ''passwd'' = os_path_join ''/etc'' [''passwd'']
   \<and> \<not> startswith (LocalStorage_get_path example_storage ''/etc'' ''passwd'') (path example_storage)
   \<and> startswith ''/passwd'' ''/''
   \<and> LocalStorage_get_path example_storage ''etc'' ''/passwd'' = ''/passwd''
   \<and> get_blob_path example_gcs ''etc'' ''/passwd'' = ''/passwd''
   \<and> strip_leading_sep (path_prefix example_gcs) \<noteq> []
   \<and> \<not> startswith (strip_leading_sep (path_prefix example_gcs)) ''/''
   \<and> \<not> startswith (get_blob_path example_gcs ''etc'' ''/passwd'')
         (strip_leading_sep (path_prefix example_gcs))"
proof -
  have h: "startswith ''/etc'' ''/''" "startswith ''/passwd'' ''/''"
    "path example_storage \<noteq> []" "\<not> startswith (path example_storage) ''/''"
    "strip_leading_sep (path_prefix example_gcs) \<noteq> []"
    "\<not> startswith (strip_leading_sep (path_prefix example_gcs)) ''/''"
    by (simp_all add: startswith_def example_storage_def example_gcs_def strip_leading_sep_def)
  note t1 = storage_path_escapes_root [of "''/etc''" example_storage "''passwd''" example_gcs]
  note t2 = storage_path_escapes_root [of "''etc''" example_storage "''/passwd''" example_gcs]
  from t1 t2 h show ?thesis by blast
qed



section \<open>Storing an object\<close>



























end
